theory Spec2Isabelle
  imports
    Complex_Main
    "HOL-Library.AList"
    "HOL-Library.Char_ord"
    "HOL-Library.List_Lexorder"
    "HOL-Library.Sublist"
begin

section \<open>The worker-action analysis front end (gttest\_main.py)\<close>

text \<open>
  The repository's source is the command-line shell \<^verbatim>\<open>gttest_main.py\<close>. It imports the
  analysis engine \<^verbatim>\<open>gttest_analysis.WorkerAnalysisSystem\<close>, whose code is not part of the
  sources; the shell only calls three of its methods.

  Numbers (seconds) are Python numbers. The functions of the shell only ever add them and
  compare nothing, so the shell is modelled over an arbitrary type \<open>'n\<close> with a zero and
  an addition about which nothing is assumed: every statement about the shell holds for
  the rounding addition of floating-point numbers as well as for exact arithmetic.
\<close>

subsection \<open>Exceptions\<close>

text \<open>
  The exceptions of the model are subclasses of Python's \<^verbatim>\<open>Exception\<close>: the
  \<^verbatim>\<open>KeyError\<close> of a subscript on a missing key, and any other exception a
  collaborator raises. An \<^verbatim>\<open>except Exception\<close> clause catches all of them.
\<close>

datatype exn = KeyError string | Exception string

subsection \<open>Event dictionaries\<close>

text \<open>
  An event is a Python dict with the keys \<^verbatim>\<open>'type'\<close>, \<^verbatim>\<open>'start_time'\<close>,
  \<^verbatim>\<open>'end_time'\<close> and \<^verbatim>\<open>'duration'\<close>. Each field of the record is the value stored
  under the key, \<open>None\<close> when the dict has no such key.
\<close>

record 'n event_dict =
  key_type :: "string option"
  key_start_time :: "'n option"
  key_end_time :: "'n option"
  key_duration :: "'n option"

text \<open>\<^verbatim>\<open>d.get(k, default)\<close> on a dict literal, given as the list of its items.\<close>

definition dict_get :: "('k \<times> 'v) list \<Rightarrow> 'k \<Rightarrow> 'v \<Rightarrow> 'v" where
  "dict_get d k dflt = (case map_of d k of None \<Rightarrow> dflt | Some v \<Rightarrow> v)"

text \<open>\<^verbatim>\<open>event.get(key, default)\<close> on an event, for one of its optional keys.\<close>

definition event_get :: "'v option \<Rightarrow> 'v \<Rightarrow> 'v" where
  "event_get field dflt = (case field of None \<Rightarrow> dflt | Some v \<Rightarrow> v)"

subsection \<open>The taxonomy tables of \<^verbatim>\<open>display_detailed_events\<close>\<close>

definition type_to_number :: "(string \<times> nat) list" where
  "type_to_number =
    [(''consult_sheets'', 2),
     (''turn_sheets'', 3),
     (''take_screwdriver'', 4),
     (''put_down_screwdriver'', 5),
     (''picking_in_front'', 6),
     (''picking_left'', 7),
     (''take_measuring_rod'', 8),
     (''put_down_measuring_rod'', 9),
     (''take_subsystem'', 10),
     (''put_down_subsystem'', 11),
     (''assemble_system'', 12),
     (''meta_action'', 1)]"

definition display_names :: "(string \<times> string) list" where
  "display_names =
    [(''consult_sheets'', ''Consult sheets''),
     (''turn_sheets'', ''Turn sheets''),
     (''take_screwdriver'', ''Take screwdriver''),
     (''put_down_screwdriver'', ''Put down screwdriver''),
     (''picking_in_front'', ''Picking in front''),
     (''picking_left'', ''Picking left''),
     (''take_measuring_rod'', ''Take measuring rod''),
     (''put_down_measuring_rod'', ''Put down measuring rod''),
     (''take_subsystem'', ''Take subsystem''),
     (''put_down_subsystem'', ''Put down subsystem''),
     (''assemble_system'', ''Assemble system''),
     (''meta_action'', ''Meta action'')]"

text \<open>The twelve action kinds in the order of their numeric codes, as the taxonomy lists them.\<close>

definition action_kinds :: "string list" where
  "action_kinds =
    [''meta_action'', ''consult_sheets'', ''turn_sheets'', ''take_screwdriver'',
     ''put_down_screwdriver'', ''picking_in_front'', ''picking_left'',
     ''take_measuring_rod'', ''put_down_measuring_rod'', ''take_subsystem'',
     ''put_down_subsystem'', ''assemble_system'']"

subsection \<open>\<^verbatim>\<open>display_detailed_events\<close>\<close>

text \<open>\<^verbatim>\<open>str(n)\<close> of a non-negative integer: its decimal digits.\<close>

fun str_nat :: "nat \<Rightarrow> string" where
  "str_nat n =
    (if n < 10 then [''0123456789'' ! n]
     else str_nat (n div 10) @ [''0123456789'' ! (n mod 10)])"

declare str_nat.simps [simp del]

text \<open>
  One turn of the loop over the events: the label \<^verbatim>\<open>f"[{number}] {display_name}"\<close> and
  the two times of the printed line. \<^verbatim>\<open>event['type']\<close> raises \<^verbatim>\<open>KeyError\<close> when the
  key is missing. The padding and the two-decimal rendering of the line are console
  formatting and are left out.
\<close>

definition detailed_line :: "'n::zero event_dict \<Rightarrow> exn + (string \<times> 'n \<times> 'n)" where
  "detailed_line event =
    (case key_type event of
       None \<Rightarrow> Inl (KeyError ''type'')
     | Some event_type \<Rightarrow>
        (let number = dict_get type_to_number event_type 1;
             display_name = dict_get display_names event_type event_type;
             label = ''['' @ str_nat number @ ''] '' @ display_name;
             start_time = event_get (key_start_time event) 0;
             end_time = event_get (key_end_time event) 0
         in Inr (label, start_time, end_time)))"

text \<open>
  The loop: the lines printed so far are accumulated; an exception ends the function.
  The result is the list of printed lines and the count of the closing line.
\<close>

fun detailed_lines :: "'n::zero event_dict list \<Rightarrow> exn + (string \<times> 'n \<times> 'n) list" where
  "detailed_lines [] = Inr []"
| "detailed_lines (event # events) =
    (case detailed_line event of
       Inl e \<Rightarrow> Inl e
     | Inr line \<Rightarrow>
        (case detailed_lines events of
           Inl e \<Rightarrow> Inl e
         | Inr lines \<Rightarrow> Inr (line # lines)))"

definition display_detailed_events ::
  "'n::zero event_dict list \<Rightarrow> exn + ((string \<times> 'n \<times> 'n) list \<times> nat)" where
  "display_detailed_events events =
    (case detailed_lines events of
       Inl e \<Rightarrow> Inl e
     | Inr lines \<Rightarrow> Inr (lines, length events))"

subsection \<open>\<^verbatim>\<open>display_events_summary\<close>\<close>

text \<open>
  The value of \<^verbatim>\<open>event_counts\<close> under an event type: the dict with the keys
  \<^verbatim>\<open>'count'\<close> and \<^verbatim>\<open>'total_duration'\<close>.
\<close>

record 'n stats =
  count :: nat
  total_duration :: 'n

text \<open>
  The loop over the events, with the two variables it updates: the dict
  \<^verbatim>\<open>event_counts\<close>, kept as the list of its items in insertion order, and the running
  total (\<^verbatim>\<open>total_duration\<close> in the source, \<open>total_time\<close> here, since the dict key
  has the name). The duration is read from the stored field, \<open>0\<close> when it is missing.
\<close>

fun summary_loop ::
  "'n::{zero,plus} event_dict list \<Rightarrow> (string \<times> 'n stats) list \<Rightarrow> 'n
    \<Rightarrow> exn + ((string \<times> 'n stats) list \<times> 'n)" where
  "summary_loop [] event_counts total_time = Inr (event_counts, total_time)"
| "summary_loop (event # events) event_counts total_time =
    (case key_type event of
       None \<Rightarrow> Inl (KeyError ''type'')
     | Some event_type \<Rightarrow>
        (let duration = event_get (key_duration event) 0;
             event_counts1 =
               (if map_of event_counts event_type = None
                then AList.update event_type \<lparr>count = 0, total_duration = 0\<rparr> event_counts
                else event_counts)
         in case map_of event_counts1 event_type of
              None \<Rightarrow> Inl (KeyError event_type)
            | Some entry \<Rightarrow>
               summary_loop events
                 (AList.update event_type
                    (entry\<lparr>count := count entry + 1,
                           total_duration := total_duration entry + duration\<rparr>)
                    event_counts1)
                 (total_time + duration)))"

text \<open>
  What the function prints: the number of events, the total analysis time, and one row per
  event type, \<^verbatim>\<open>sorted(event_counts.items())\<close> (the keys of a dict are distinct, so the
  rows are ordered by their type alone). The one-decimal rendering of the times is console
  formatting and is left out.
\<close>

definition display_events_summary ::
  "'n::{zero,plus} event_dict list \<Rightarrow> exn + (nat \<times> 'n \<times> (string \<times> 'n stats) list)" where
  "display_events_summary events =
    (case summary_loop events [] 0 of
       Inl e \<Rightarrow> Inl e
     | Inr (event_counts, total_time) \<Rightarrow>
        Inr (length events, total_time, sort_key fst event_counts))"

text \<open>
  The vocabulary of the statistics: the stored duration of an event, the events of one
  type, and Python's \<^verbatim>\<open>sum\<close>, which adds from the left starting at \<open>0\<close>.
\<close>

definition stored_duration :: "'n::zero event_dict \<Rightarrow> 'n" where
  "stored_duration event = event_get (key_duration event) 0"

definition events_of_type :: "string \<Rightarrow> 'n event_dict list \<Rightarrow> 'n event_dict list" where
  "events_of_type k events = filter (\<lambda>event. key_type event = Some k) events"

definition py_sum :: "'n::{zero,plus} list \<Rightarrow> 'n" where
  "py_sum xs = foldl (+) 0 xs"

subsection \<open>\<^verbatim>\<open>analyze_video\<close> and \<^verbatim>\<open>main\<close>\<close>

text \<open>
  The dict \<^verbatim>\<open>analyze_video\<close> returns, with its two keys \<^verbatim>\<open>'events'\<close> and
  \<^verbatim>\<open>'robot_selected_events'\<close> (both always present, so \<^verbatim>\<open>analysis_data.get\<close> never
  takes its default).
\<close>

record 'n analysis_data =
  key_events :: "'n event_dict list"
  key_robot_selected_events :: "'n event_dict list"

text \<open>
  The analysis engine, an object of the absent class \<^verbatim>\<open>WorkerAnalysisSystem\<close>, is a
  parameter: the record holds what each of the three methods the shell calls returns or
  raises. \<^verbatim>\<open>analyzer.analyze_video()\<close> takes no argument; a result \<^verbatim>\<open>None\<close> and an empty
  list are both falsy and are both the empty list here.
\<close>

record 'n WorkerAnalysisSystem =
  m_analyze_video :: "exn + 'n event_dict list"
  m_select_robot_actions :: "'n event_dict list \<Rightarrow> exn + 'n event_dict list"
  m_generate_robot_script :: "'n analysis_data \<Rightarrow> exn + string option"

definition analyze_video :: "'n WorkerAnalysisSystem \<Rightarrow> 'n analysis_data option" where
  "analyze_video analyzer =
    (case m_analyze_video analyzer of
       Inl e \<Rightarrow> None
     | Inr events \<Rightarrow>
        if events = [] then None
        else (case m_select_robot_actions analyzer events of
                Inl e \<Rightarrow> None
              | Inr selected \<Rightarrow>
                 Some \<lparr>key_events = events, key_robot_selected_events = selected\<rparr>))"

text \<open>
  What \<^verbatim>\<open>main\<close> meets outside the functions above: the exception
  \<^verbatim>\<open>setup_directories\<close> raises, if any; the path \<^verbatim>\<open>get_video_input\<close> returns from the
  dialogue with the user, \<open>None\<close> when the user gives up; the constructor of the analysis
  engine; and the file name \<^verbatim>\<open>save_analysis_results\<close> returns, \<open>None\<close> when writing
  failed (it catches every exception of the writing itself).
\<close>

record 'n environment =
  setup_directories :: "exn option"
  get_video_input :: "string option"
  new_WorkerAnalysisSystem :: "string \<Rightarrow> exn + 'n WorkerAnalysisSystem"
  save_analysis_results :: "'n analysis_data \<Rightarrow> string \<Rightarrow> string option"

text \<open>
  \<^verbatim>\<open>main\<close> returns \<^verbatim>\<open>True\<close> or \<^verbatim>\<open>False\<close>, or ends with an exception nothing catches.
  \<^verbatim>\<open>not video_path\<close> holds for \<^verbatim>\<open>None\<close> and for the empty string. An exception of
  the constructor is caught and answered with \<^verbatim>\<open>False\<close>; one of the two display functions
  or of the script generator is not caught. The welcome banner and the closing report are
  printed text only and change no result.
\<close>

definition main :: "'n::{zero,plus} environment \<Rightarrow> exn + bool" where
  "main env =
    (case setup_directories env of
       Some e \<Rightarrow> Inl e
     | None \<Rightarrow>
    (case get_video_input env of
       None \<Rightarrow> Inr False
     | Some video_path \<Rightarrow>
        if video_path = [] then Inr False
        else
    (case new_WorkerAnalysisSystem env video_path of
       Inl e \<Rightarrow> Inr False
     | Inr analyzer \<Rightarrow>
    (case analyze_video analyzer of
       None \<Rightarrow> Inr False
     | Some analysis_data \<Rightarrow>
        (let events = key_events analysis_data in
        if events = [] then Inr False
        else
    (case display_events_summary events of
       Inl e \<Rightarrow> Inl e
     | Inr summary \<Rightarrow>
    (case display_detailed_events events of
       Inl e \<Rightarrow> Inl e
     | Inr listing \<Rightarrow>
        (let robot_events = key_robot_selected_events analysis_data in
    (case (if robot_events \<noteq> []
           then m_generate_robot_script analyzer analysis_data
           else Inr None) of
       Inl e \<Rightarrow> Inl e
     | Inr robot_script_path \<Rightarrow>
        (let results_file = save_analysis_results env analysis_data video_path
         in Inr True))))))))))"

text \<open>
  The \<^verbatim>\<open>__main__\<close> block: \<^verbatim>\<open>sys.exit(0 if success else 1)\<close>. An exception that leaves
  \<^verbatim>\<open>main\<close> is caught by nothing, and the interpreter ends with status 1.
\<close>

definition exit_status :: "'n::{zero,plus} environment \<Rightarrow> nat" where
  "exit_status env =
    (case main env of
       Inl e \<Rightarrow> 1
     | Inr success \<Rightarrow> if success then 0 else 1)"

section \<open>The action-event pipeline of the analysis engine\<close>

text \<open>
  The event model, the selector and the script generator live in the analysis engine
  \<^verbatim>\<open>gttest_analysis\<close>, which the shell imports and whose code is absent. The
  definitions of this section are therefore written from the specification's sections
  3, 4 and 7. Times are the specification's real numbers of seconds.
\<close>

text \<open>
  Modelled from the spec: the error taxonomy of the absent engine (section 7);
  \<open>UnknownActionKind\<close> is tolerated and is not an error value.
\<close>

datatype error = InvalidTimeRange | EmptySelection | DuplicateEvent

text \<open>
  Modelled from the spec: the validated \<open>Event\<close> of the absent event model (section 3).
  The kind is the classifier's kind string: an unknown kind keeps its raw name. The
  duration is always derived from the time bounds.
\<close>

record Event =
  kind :: string
  start_time :: real
  end_time :: real

definition duration :: "Event \<Rightarrow> real" where
  "duration e = end_time e - start_time e"

text \<open>
  Modelled from the spec: the absent constructor of section 4.1, from a raw
  \<open>(kind-string, start_time, end_time)\<close> triple. Both times must be non-negative, and
  the construction fails with \<open>InvalidTimeRange\<close> if \<open>end_time < start_time\<close>; a negative
  time is malformed bounds as well. Every real number is finite.
\<close>

definition make_event :: "string \<times> real \<times> real \<Rightarrow> error + Event" where
  "make_event raw =
    (case raw of (kind_string, s, t) \<Rightarrow>
       if t < s then Inl InvalidTimeRange
       else if s < 0 \<or> t < 0 then Inl InvalidTimeRange
       else Inr \<lparr>kind = kind_string, start_time = s, end_time = t\<rparr>)"

text \<open>
  Modelled from the spec: the policy of the absent selector (section 4.2), naming the
  action kinds that are robot-actionable.
\<close>

record policy =
  actionable_set :: "string set"

text \<open>
  Modelled from the spec: the absent \<open>select\<close> of section 4.2, a single linear pass over
  the ordered events in which each event is retained iff its kind is in the policy's
  actionable set; no reordering, no lookahead, no merging.
\<close>

fun select :: "Event list \<Rightarrow> policy \<Rightarrow> Event list" where
  "select [] p = []"
| "select (e # es) p =
    (if kind e \<in> actionable_set p then e # select es p else select es p)"

text \<open>
  Modelled from the spec: a robot command of the absent generator (section 4.3): the
  action's numeric code, the start offset, the duration and the kind-specific parameters.
\<close>

record 'p command =
  code :: nat
  offset :: real
  command_duration :: real
  parameters :: 'p

text \<open>
  Modelled from the spec: the absent \<open>generate\<close> of section 4.3. It fails with
  \<open>EmptySelection\<close> on a selection of zero events; otherwise it emits one command per
  selected event, in order, with the offset \<open>event.start_time - selection[0].start_time\<close>.
  The numeric code is the taxonomy's, with the fallback 1 of an unknown kind. The table of
  kind-specific parameters is declared by the engine and is a parameter here.
\<close>

definition generate :: "(string \<Rightarrow> 'p) \<Rightarrow> Event list \<Rightarrow> error + 'p command list" where
  "generate table selection =
    (case selection of
       [] \<Rightarrow> Inl EmptySelection
     | first # rest \<Rightarrow>
        Inr (map (\<lambda>e. \<lparr>code = dict_get type_to_number (kind e) 1,
                         offset = start_time e - start_time first,
                         command_duration = duration e,
                         parameters = table (kind e)\<rparr>)
                 selection))"

section \<open>Example inputs\<close>

text \<open>
  Three events as the classifier hands them over: the second has no \<^verbatim>\<open>'duration'\<close> key,
  and the stored duration of the third differs from its time bounds.
\<close>

definition example_events :: "real event_dict list" where
  "example_events =
    [\<lparr>key_type = Some ''turn_sheets'', key_start_time = Some 0, key_end_time = Some 2,
      key_duration = Some 2\<rparr>,
     \<lparr>key_type = Some ''take_screwdriver'', key_start_time = Some 2, key_end_time = Some 3.5,
      key_duration = None\<rparr>,
     \<lparr>key_type = Some ''turn_sheets'', key_start_time = Some 4, key_end_time = Some 5,
      key_duration = Some 1.5\<rparr>]"

text \<open>An engine that detects these events, selects the screwdriver action and writes a script.\<close>

definition example_analyzer :: "real WorkerAnalysisSystem" where
  "example_analyzer =
    \<lparr>m_analyze_video = Inr example_events,
     m_select_robot_actions =
       (\<lambda>evs. Inr (filter (\<lambda>event. key_type event = Some ''take_screwdriver'') evs)),
     m_generate_robot_script = (\<lambda>data. Inr (Some ''robot_scripts/robot_script.py''))\<rparr>"

text \<open>A run in which the user names a video and every collaborator of the shell works.\<close>

definition example_environment :: "real WorkerAnalysisSystem \<Rightarrow> real environment" where
  "example_environment analyzer =
    \<lparr>setup_directories = None,
     get_video_input = Some ''r1test.mp4'',
     new_WorkerAnalysisSystem = (\<lambda>video_path. Inr analyzer),
     save_analysis_results = (\<lambda>data video_path. Some ''results/r1test.json'')\<rparr>"

text \<open>
  Three events with missing keys: the first has time bounds 1.5 seconds apart and no
  \<^verbatim>\<open>'duration'\<close> key, the stored duration of the second differs from its bounds, and the
  third has neither a \<^verbatim>\<open>'start_time'\<close> nor an \<^verbatim>\<open>'end_time'\<close> key.
\<close>

definition example_incomplete_events :: "real event_dict list" where
  "example_incomplete_events =
    [\<lparr>key_type = Some ''take_screwdriver'', key_start_time = Some 2, key_end_time = Some 3.5,
      key_duration = None\<rparr>,
     \<lparr>key_type = Some ''turn_sheets'', key_start_time = Some 4, key_end_time = Some 5,
      key_duration = Some 1.5\<rparr>,
     \<lparr>key_type = Some ''picking_left'', key_start_time = None, key_end_time = None,
      key_duration = Some 0.5\<rparr>]"

text \<open>The selection of the specification's example scenario (section 8).\<close>

definition example_selection :: "Event list" where
  "example_selection =
    [\<lparr>kind = ''take_screwdriver'', start_time = 2, end_time = 3.5\<rparr>,
     \<lparr>kind = ''put_down_screwdriver'', start_time = 10, end_time = 10.5\<rparr>]"

section \<open>The taxonomy tables\<close>

lemma distinct_action_kinds: "distinct action_kinds"
  by (simp add: action_kinds_def)

lemma keys_type_to_number: "set (map fst type_to_number) = set action_kinds"
  by (auto simp add: action_kinds_def type_to_number_def)

lemma keys_display_names: "set (map fst display_names) = set action_kinds"
  by (auto simp add: action_kinds_def display_names_def)

text \<open>A dict literal has each key once, so \<open>map_of\<close> reads it as Python does.\<close>

lemma distinct_keys:
  "distinct (map fst type_to_number)" "distinct (map fst display_names)"
  by (simp_all add: type_to_number_def display_names_def)

lemma distinct_codes: "distinct (map (\<lambda>k. dict_get type_to_number k 1) action_kinds)"
  by (simp add: action_kinds_def type_to_number_def dict_get_def)

lemma distinct_labels: "distinct (map (\<lambda>k. dict_get display_names k k) action_kinds)"
  by (simp add: action_kinds_def display_names_def dict_get_def)

text \<open>
  C1. The lookup tables give each of the twelve named action kinds the numeric code the
  taxonomy lists for it (\<open>meta_action\<close> 1, \<open>consult_sheets\<close> 2, ..., \<open>assemble_system\<close> 12),
  the twelve kinds are exactly the keys of both tables, and neither the code lookup nor
  the display-label lookup sends two of the twelve kinds to the same value.
\<close>

theorem taxonomy_codes_and_labels:
  "map_of type_to_number ''meta_action'' = Some 1 \<and>
   map_of type_to_number ''consult_sheets'' = Some 2 \<and>
   map_of type_to_number ''turn_sheets'' = Some 3 \<and>
   map_of type_to_number ''take_screwdriver'' = Some 4 \<and>
   map_of type_to_number ''put_down_screwdriver'' = Some 5 \<and>
   map_of type_to_number ''picking_in_front'' = Some 6 \<and>
   map_of type_to_number ''picking_left'' = Some 7 \<and>
   map_of type_to_number ''take_measuring_rod'' = Some 8 \<and>
   map_of type_to_number ''put_down_measuring_rod'' = Some 9 \<and>
   map_of type_to_number ''take_subsystem'' = Some 10 \<and>
   map_of type_to_number ''put_down_subsystem'' = Some 11 \<and>
   map_of type_to_number ''assemble_system'' = Some 12 \<and>
   map (\<lambda>k. dict_get type_to_number k 1) action_kinds = [1, 2, 3, 4, 5, 6, 7, 8, 9, 10, 11, 12] \<and>
   length action_kinds = 12 \<and> distinct action_kinds \<and>
   set (map fst type_to_number) = set action_kinds \<and>
   set (map fst display_names) = set action_kinds \<and>
   inj_on (\<lambda>k. dict_get type_to_number k 1) (set action_kinds) \<and>
   inj_on (\<lambda>k. dict_get display_names k k) (set action_kinds)"
proof -
  have codes:
    "map_of type_to_number ''meta_action'' = Some 1"
    "map_of type_to_number ''consult_sheets'' = Some 2"
    "map_of type_to_number ''turn_sheets'' = Some 3"
    "map_of type_to_number ''take_screwdriver'' = Some 4"
    "map_of type_to_number ''put_down_screwdriver'' = Some 5"
    "map_of type_to_number ''picking_in_front'' = Some 6"
    "map_of type_to_number ''picking_left'' = Some 7"
    "map_of type_to_number ''take_measuring_rod'' = Some 8"
    "map_of type_to_number ''put_down_measuring_rod'' = Some 9"
    "map_of type_to_number ''take_subsystem'' = Some 10"
    "map_of type_to_number ''put_down_subsystem'' = Some 11"
    "map_of type_to_number ''assemble_system'' = Some 12"
    by (simp_all add: type_to_number_def)
  have in_order:
    "map (\<lambda>k. dict_get type_to_number k 1) action_kinds = [1, 2, 3, 4, 5, 6, 7, 8, 9, 10, 11, 12]"
    by (simp add: action_kinds_def dict_get_def codes)
  have twelve: "length action_kinds = 12"
    by (simp add: action_kinds_def)
  have inj_codes: "inj_on (\<lambda>k. dict_get type_to_number k 1) (set action_kinds)"
    using distinct_codes by (simp add: distinct_map)
  have inj_labels: "inj_on (\<lambda>k. dict_get display_names k k) (set action_kinds)"
    using distinct_labels by (simp add: distinct_map)
  from codes in_order twelve distinct_action_kinds keys_type_to_number keys_display_names
    inj_codes inj_labels
  show ?thesis by blast
qed

section \<open>The detailed listing\<close>

lemma unknown_kind_not_in_tables:
  assumes "k \<notin> set action_kinds"
  shows "map_of type_to_number k = None" and "map_of display_names k = None"
  using assms by (simp_all add: action_kinds_def type_to_number_def display_names_def)

lemma str_nat_one: "str_nat (Suc 0) = ''1''"
  by (simp add: str_nat.simps)

lemma detailed_lines_append:
  "detailed_lines (xs @ ys) =
    (case detailed_lines xs of
       Inl e \<Rightarrow> Inl e
     | Inr before \<Rightarrow>
        (case detailed_lines ys of Inl e \<Rightarrow> Inl e | Inr after \<Rightarrow> Inr (before @ after)))"
  by (induction xs) (auto split: sum.splits)

lemma detailed_lines_defined:
  "(\<exists>r. detailed_lines evs = Inr r) \<longleftrightarrow> (\<forall>e \<in> set evs. key_type e \<noteq> None)"
  by (induction evs)
     (auto simp: detailed_line_def Let_def split: option.splits sum.splits)

lemma display_detailed_events_defined:
  "(\<exists>r. display_detailed_events evs = Inr r) \<longleftrightarrow> (\<forall>e \<in> set evs. key_type e \<noteq> None)"
  unfolding detailed_lines_defined[symmetric]
  by (auto simp: display_detailed_events_def split: sum.splits)

lemma display_detailed_events_not_Inl:
  "\<forall>e \<in> set evs. key_type e \<noteq> None \<Longrightarrow> display_detailed_events evs \<noteq> Inl x"
  using display_detailed_events_defined[of evs] by auto

text \<open>
  C2. For an event whose kind string is not one of the twelve known kinds, the lookup of
  the detailed listing gives the numeric code 1 and the raw kind string itself as the
  display name: the line of the event is labelled \<open>[1]\<close> followed by the raw string, no
  exception is raised, and the listing goes on with the events that follow.
\<close>

theorem unknown_kind_fallback:
  assumes "key_type event = Some k" and "k \<notin> set action_kinds"
  shows "dict_get type_to_number k 1 = 1 \<and>
         dict_get display_names k k = k \<and>
         detailed_line event =
           Inr (''[1] '' @ k, event_get (key_start_time event) 0,
                event_get (key_end_time event) 0) \<and>
         (detailed_lines pre = Inr before \<and> detailed_lines post = Inr after \<longrightarrow>
            display_detailed_events (pre @ event # post) =
              Inr (before @ (''[1] '' @ k, event_get (key_start_time event) 0,
                             event_get (key_end_time event) 0) # after,
                   length (pre @ event # post)))"
proof -
  have number: "dict_get type_to_number k 1 = 1"
    using assms(2) by (simp add: dict_get_def unknown_kind_not_in_tables)
  have name: "dict_get display_names k k = k"
    using assms(2) by (simp add: dict_get_def unknown_kind_not_in_tables)
  have line: "detailed_line event =
      Inr (''[1] '' @ k, event_get (key_start_time event) 0, event_get (key_end_time event) 0)"
    using assms(1) number name
    by (simp add: detailed_line_def Let_def str_nat_one)
  have "display_detailed_events (pre @ event # post) =
      Inr (before @ (''[1] '' @ k, event_get (key_start_time event) 0,
                     event_get (key_end_time event) 0) # after,
           length (pre @ event # post))"
    if "detailed_lines pre = Inr before" and "detailed_lines post = Inr after"
    using that by (simp add: display_detailed_events_def detailed_lines_append line)
  with number name line show ?thesis by blast
qed

theorem unknown_kind_fallback_witness:
  "detailed_line \<lparr>key_type = Some ''wave_hand'', key_start_time = Some (1::real),
      key_end_time = None, key_duration = None\<rparr> = Inr (''[1] wave_hand'', 1, 0) \<and>
   display_detailed_events
     [\<lparr>key_type = Some ''take_subsystem'', key_start_time = Some (0::real),
       key_end_time = Some 1, key_duration = Some 1\<rparr>,
      \<lparr>key_type = Some ''wave_hand'', key_start_time = Some 1,
       key_end_time = None, key_duration = None\<rparr>] =
     Inr ([(''[10] Take subsystem'', 0, 1), (''[1] wave_hand'', 1, 0)], 2)"
  using unknown_kind_fallback[of
      "\<lparr>key_type = Some ''wave_hand'', key_start_time = Some (1::real),
        key_end_time = None, key_duration = None\<rparr>"
      "''wave_hand''"
      "[\<lparr>key_type = Some ''take_subsystem'', key_start_time = Some (0::real),
         key_end_time = Some 1, key_duration = Some 1\<rparr>]"
      "[(''[10] Take subsystem'', 0, 1)]" "[]" "[]"]
  by (simp add: action_kinds_def event_get_def detailed_line_def dict_get_def
      type_to_number_def display_names_def str_nat.simps)

section \<open>The summary statistics\<close>

lemma summary_loop_total:
  "summary_loop evs ec t = Inr (ec', t') \<Longrightarrow> t' = foldl (+) t (map stored_duration evs)"
  by (induction evs arbitrary: ec t)
     (auto simp: Let_def stored_duration_def split: option.splits if_splits)

lemma summary_loop_defined:
  "\<forall>e \<in> set evs. key_type e \<noteq> None \<Longrightarrow> \<exists>r. summary_loop evs ec t = Inr r"
  by (induction evs arbitrary: ec t)
     (auto simp: Let_def update_conv' split: option.splits if_splits)

lemma summary_loop_typed:
  "summary_loop evs ec t = Inr r \<Longrightarrow> \<forall>e \<in> set evs. key_type e \<noteq> None"
  by (induction evs arbitrary: ec t)
     (auto simp: Let_def split: option.splits if_splits)

lemma summary_loop_distinct:
  "summary_loop evs ec t = Inr (ec', t') \<Longrightarrow> distinct (map fst ec) \<Longrightarrow> distinct (map fst ec')"
  by (induction evs arbitrary: ec t)
     (auto simp: Let_def distinct_update split: option.splits if_splits)

text \<open>
  The entry of a type after the loop: the entry it had before, advanced by the events of
  the type; a type with no entry before starts from count 0 and duration 0.
\<close>

lemma summary_loop_counts:
  "summary_loop evs ec t = Inr (ec', t') \<Longrightarrow>
   map_of ec' k =
     (case map_of ec k of
        Some s \<Rightarrow>
          Some \<lparr>count = count s + length (events_of_type k evs),
                total_duration =
                  foldl (+) (total_duration s) (map stored_duration (events_of_type k evs))\<rparr>
      | None \<Rightarrow>
          if events_of_type k evs = [] then None
          else Some \<lparr>count = length (events_of_type k evs),
                     total_duration =
                       foldl (+) 0 (map stored_duration (events_of_type k evs))\<rparr>)"
proof (induction evs arbitrary: ec t)
  case Nil
  then show ?case by (auto simp: events_of_type_def split: option.splits)
next
  case (Cons event evs)
  then show ?case
    by (auto simp: Let_def update_conv' events_of_type_def stored_duration_def
             split: option.splits if_splits)
qed

lemma map_of_sort_key_fst:
  "distinct (map fst xs) \<Longrightarrow> map_of (sort_key fst xs) = map_of xs"
  by (rule map_of_inject_set[THEN iffD2]) (simp_all add: distinct_map)

lemma display_events_summary_defined:
  "(\<exists>r. display_events_summary evs = Inr r) \<longleftrightarrow> (\<forall>e \<in> set evs. key_type e \<noteq> None)"
proof
  assume "\<exists>r. display_events_summary evs = Inr r"
  then obtain r where "summary_loop evs [] 0 = Inr r"
    by (auto simp: display_events_summary_def split: sum.splits)
  then show "\<forall>e \<in> set evs. key_type e \<noteq> None" by (rule summary_loop_typed)
next
  assume "\<forall>e \<in> set evs. key_type e \<noteq> None"
  then obtain r where "summary_loop evs [] (0::'a) = Inr r"
    using summary_loop_defined by blast
  then show "\<exists>r. display_events_summary evs = Inr r"
    by (auto simp: display_events_summary_def split: sum.splits prod.splits)
qed

lemma display_events_summary_not_Inl:
  "\<forall>e \<in> set evs. key_type e \<noteq> None \<Longrightarrow> display_events_summary evs \<noteq> Inl x"
  using display_events_summary_defined[of evs] by auto

lemma display_events_summary_Inr:
  "display_events_summary evs = Inr r \<Longrightarrow> \<forall>e \<in> set evs. key_type e \<noteq> None"
  using display_events_summary_defined[of evs] by blast

text \<open>
  C8. Over a sequence of events that all carry a type, the summary reports the number of
  events, as the total analysis time the sum of the duration fields of all events, and one
  row per event type that occurs, ordered by type, holding the count of the events of that
  type and the sum of their durations. A sum adds the stored durations from the left,
  starting at 0, in the order of the events.
\<close>

theorem summary_statistics:
  assumes "\<forall>event \<in> set evs. key_type event \<noteq> None"
  shows "\<exists>rows.
    display_events_summary evs = Inr (length evs, py_sum (map stored_duration evs), rows) \<and>
    sorted (map fst rows) \<and> distinct (map fst rows) \<and>
    (\<forall>k. map_of rows k =
       (if events_of_type k evs = [] then None
        else Some \<lparr>count = length (events_of_type k evs),
                   total_duration = py_sum (map stored_duration (events_of_type k evs))\<rparr>))"
proof -
  from assms obtain ec t where loop: "summary_loop evs [] (0::'a) = Inr (ec, t)"
    using summary_loop_defined[of evs "[]" 0] by auto
  have t: "t = py_sum (map stored_duration evs)"
    using summary_loop_total[OF loop] by (simp add: py_sum_def)
  have d: "distinct (map fst ec)"
    using summary_loop_distinct[OF loop] by simp
  have c: "map_of ec k =
       (if events_of_type k evs = [] then None
        else Some \<lparr>count = length (events_of_type k evs),
                   total_duration = py_sum (map stored_duration (events_of_type k evs))\<rparr>)" for k
    using summary_loop_counts[OF loop, of k] by (simp add: py_sum_def)
  have "display_events_summary evs = Inr (length evs, t, sort_key fst ec)"
    by (simp add: display_events_summary_def loop)
  moreover have "sorted (map fst (sort_key fst ec))"
    by (rule sorted_sort_key)
  moreover have "distinct (map fst (sort_key fst ec))"
    using d by (simp add: distinct_map)
  moreover have "map_of (sort_key fst ec) = map_of ec"
    using d by (rule map_of_sort_key_fst)
  ultimately show ?thesis
    using t c by auto
qed

theorem summary_statistics_witness:
  "\<exists>rows. display_events_summary example_events = Inr (3, 7/2, rows) \<and>
     map_of rows ''turn_sheets'' = Some \<lparr>count = 2, total_duration = 7/2\<rparr> \<and>
     map_of rows ''take_screwdriver'' = Some \<lparr>count = 1, total_duration = 0\<rparr> \<and>
     map_of rows ''consult_sheets'' = None"
  using summary_statistics[of example_events]
  by (auto simp: example_events_def py_sum_def stored_duration_def events_of_type_def
      event_get_def)

text \<open>The summary reads nothing of an event but its type and its stored duration.\<close>

lemma summary_loop_cong:
  "map key_type evs = map key_type evs' \<Longrightarrow>
   map stored_duration evs = map stored_duration evs' \<Longrightarrow>
   summary_loop evs ec t = summary_loop evs' ec t"
proof (induction evs arbitrary: evs' ec t)
  case Nil
  then show ?case by simp
next
  case (Cons e evs)
  then obtain e' rest where evs': "evs' = e' # rest" by (cases evs') auto
  with Cons.prems have h: "key_type e = key_type e'" "stored_duration e = stored_duration e'"
    "map key_type evs = map key_type rest" "map stored_duration evs = map stored_duration rest"
    by simp_all
  show ?case
    using h(1,2) Cons.IH[OF h(3,4)]
    by (simp add: evs' stored_duration_def Let_def split: option.splits)
qed

lemma display_events_summary_cong:
  "map key_type evs = map key_type evs' \<Longrightarrow>
   map stored_duration evs = map stored_duration evs' \<Longrightarrow>
   display_events_summary evs = display_events_summary evs'"
  using summary_loop_cong[of evs evs' "[]" 0] map_eq_imp_length_eq[of key_type evs key_type evs']
  by (simp add: display_events_summary_def split: sum.splits)

lemma stored_duration_eq:
  "stored_duration = (\<lambda>e. case key_duration e of None \<Rightarrow> 0 | Some d \<Rightarrow> d)"
  by (rule ext) (simp add: stored_duration_def event_get_def)

lemma detailed_lines_times:
  "\<forall>e \<in> set evs. key_type e \<noteq> None \<Longrightarrow>
   \<exists>lines. detailed_lines evs = Inr lines \<and>
     map snd lines =
       map (\<lambda>e. (case key_start_time e of None \<Rightarrow> 0 | Some s \<Rightarrow> s,
                 case key_end_time e of None \<Rightarrow> 0 | Some t \<Rightarrow> t)) evs"
  by (induction evs)
     (auto simp: detailed_line_def event_get_def Let_def split: option.splits sum.splits)

text \<open>
  C10. For events that all carry a type, the summary outputs as total the sum of the
  stored \<^verbatim>\<open>'duration'\<close> fields, an event without the key counting as 0, and per type the
  count and the sum of the same stored values; the detailed listing outputs for each event
  its stored start and end time, 0 for a missing key. A single event without a duration
  gives the total 0 + 0 whatever its time bounds are, and one with the stored duration
  \<open>d\<close> gives 0 + \<open>d\<close>. The summary never recomputes a duration from the time bounds: it
  stays the same when the start and end times of the events are replaced by any others,
  and an event without a duration counts as one storing 0 wherever it stands.
\<close>

theorem missing_fields_default_to_zero:
  assumes "\<forall>e \<in> set evs. key_type e \<noteq> None"
  shows
  "(\<exists>rows.
      display_events_summary evs =
        Inr (length evs,
             foldl (+) 0 (map (\<lambda>e. case key_duration e of None \<Rightarrow> 0 | Some d \<Rightarrow> d) evs),
             rows) \<and>
      (\<forall>k. map_of rows k =
         (if filter (\<lambda>e. key_type e = Some k) evs = [] then None
          else Some \<lparr>count = length (filter (\<lambda>e. key_type e = Some k) evs),
                     total_duration =
                       foldl (+) 0
                         (map (\<lambda>e. case key_duration e of None \<Rightarrow> 0 | Some d \<Rightarrow> d)
                            (filter (\<lambda>e. key_type e = Some k) evs))\<rparr>))) \<and>
   (\<exists>lines.
      display_detailed_events evs = Inr (lines, length evs) \<and>
      map snd lines =
        map (\<lambda>e. (case key_start_time e of None \<Rightarrow> 0 | Some s \<Rightarrow> s,
                  case key_end_time e of None \<Rightarrow> 0 | Some t \<Rightarrow> t)) evs) \<and>
   (key_type event = Some k \<and> key_duration event = None \<longrightarrow>
      display_events_summary [event] =
        Inr (1, 0 + 0, [(k, \<lparr>count = 1, total_duration = 0 + 0\<rparr>)])) \<and>
   (key_type event = Some k \<and> key_duration event = Some d \<longrightarrow>
      display_events_summary [event] =
        Inr (1, 0 + d, [(k, \<lparr>count = 1, total_duration = 0 + d\<rparr>)])) \<and>
   (key_type event = Some k \<longrightarrow>
      detailed_line event =
        Inr (''['' @ str_nat (dict_get type_to_number k 1) @ ''] '' @ dict_get display_names k k,
             (case key_start_time event of None \<Rightarrow> 0 | Some s \<Rightarrow> s),
             (case key_end_time event of None \<Rightarrow> 0 | Some t \<Rightarrow> t))) \<and>
   display_events_summary (map (\<lambda>e. e\<lparr>key_start_time := s e, key_end_time := t e\<rparr>) evs) =
     display_events_summary evs \<and>
   display_events_summary (pre @ event\<lparr>key_duration := None\<rparr> # post) =
     display_events_summary (pre @ event\<lparr>key_duration := Some 0\<rparr> # post)"
proof -
  from assms obtain ec tt where loop: "summary_loop evs [] (0::'a) = Inr (ec, tt)"
    using summary_loop_defined[of evs "[]" 0] by auto
  have tt: "tt = foldl (+) 0 (map (\<lambda>e. case key_duration e of None \<Rightarrow> 0 | Some d \<Rightarrow> d) evs)"
    using summary_loop_total[OF loop] by (simp add: stored_duration_eq)
  have d: "distinct (map fst ec)"
    using summary_loop_distinct[OF loop] by simp
  have c: "map_of ec k =
         (if filter (\<lambda>e. key_type e = Some k) evs = [] then None
          else Some \<lparr>count = length (filter (\<lambda>e. key_type e = Some k) evs),
                     total_duration =
                       foldl (+) 0
                         (map (\<lambda>e. case key_duration e of None \<Rightarrow> 0 | Some d \<Rightarrow> d)
                            (filter (\<lambda>e. key_type e = Some k) evs))\<rparr>)" for k
    using summary_loop_counts[OF loop, of k]
    by (simp add: stored_duration_eq events_of_type_def)
  have out: "display_events_summary evs = Inr (length evs, tt, sort_key fst ec)"
    by (simp add: display_events_summary_def loop)
  have m: "map_of (sort_key fst ec) = map_of ec"
    using d by (rule map_of_sort_key_fst)
  have 1: "\<exists>rows.
      display_events_summary evs =
        Inr (length evs,
             foldl (+) 0 (map (\<lambda>e. case key_duration e of None \<Rightarrow> 0 | Some d \<Rightarrow> d) evs),
             rows) \<and>
      (\<forall>k. map_of rows k =
         (if filter (\<lambda>e. key_type e = Some k) evs = [] then None
          else Some \<lparr>count = length (filter (\<lambda>e. key_type e = Some k) evs),
                     total_duration =
                       foldl (+) 0
                         (map (\<lambda>e. case key_duration e of None \<Rightarrow> 0 | Some d \<Rightarrow> d)
                            (filter (\<lambda>e. key_type e = Some k) evs))\<rparr>))"
    using out tt c m by auto
  have 2: "\<exists>lines.
      display_detailed_events evs = Inr (lines, length evs) \<and>
      map snd lines =
        map (\<lambda>e. (case key_start_time e of None \<Rightarrow> 0 | Some s \<Rightarrow> s,
                  case key_end_time e of None \<Rightarrow> 0 | Some t \<Rightarrow> t)) evs"
    using detailed_lines_times[OF assms] by (auto simp: display_detailed_events_def)
  have 3: "key_type event = Some k \<and> key_duration event = None \<longrightarrow>
      display_events_summary [event] =
        Inr (1, 0 + 0, [(k, \<lparr>count = 1, total_duration = 0 + 0\<rparr>)])"
    by (simp add: display_events_summary_def event_get_def)
  have 4: "key_type event = Some k \<and> key_duration event = Some d \<longrightarrow>
      display_events_summary [event] =
        Inr (1, 0 + d, [(k, \<lparr>count = 1, total_duration = 0 + d\<rparr>)])"
    by (simp add: display_events_summary_def event_get_def)
  have 5: "key_type event = Some k \<longrightarrow>
      detailed_line event =
        Inr (''['' @ str_nat (dict_get type_to_number k 1) @ ''] '' @ dict_get display_names k k,
             (case key_start_time event of None \<Rightarrow> 0 | Some s \<Rightarrow> s),
             (case key_end_time event of None \<Rightarrow> 0 | Some t \<Rightarrow> t))"
    by (simp add: detailed_line_def event_get_def Let_def)
  have 6: "display_events_summary (map (\<lambda>e. e\<lparr>key_start_time := s e, key_end_time := t e\<rparr>) evs) =
     display_events_summary evs"
    by (rule display_events_summary_cong) (simp_all add: stored_duration_def event_get_def comp_def)
  have 7: "display_events_summary (pre @ event\<lparr>key_duration := None\<rparr> # post) =
     display_events_summary (pre @ event\<lparr>key_duration := Some 0\<rparr> # post)"
    by (rule display_events_summary_cong) (simp_all add: stored_duration_def event_get_def)
  from 1 2 3 4 5 6 7 show ?thesis by blast
qed

theorem missing_fields_default_to_zero_witness:
  "(\<exists>rows. display_events_summary example_incomplete_events = Inr (3, 2, rows) \<and>
      map_of rows ''take_screwdriver'' = Some \<lparr>count = 1, total_duration = 0\<rparr> \<and>
      map_of rows ''turn_sheets'' = Some \<lparr>count = 1, total_duration = 3/2\<rparr> \<and>
      map_of rows ''picking_left'' = Some \<lparr>count = 1, total_duration = 1/2\<rparr>) \<and>
   (\<exists>lines. display_detailed_events example_incomplete_events = Inr (lines, 3) \<and>
      map snd lines = [(2, 7/2), (4, 5), (0, 0)]) \<and>
   display_events_summary [hd example_incomplete_events] =
     Inr (1, 0, [(''take_screwdriver'', \<lparr>count = 1, total_duration = 0\<rparr>)]) \<and>
   display_events_summary [last example_incomplete_events] =
     Inr (1, 1/2, [(''picking_left'', \<lparr>count = 1, total_duration = 1/2\<rparr>)]) \<and>
   detailed_line (last example_incomplete_events) = Inr (''[7] Picking left'', 0, 0)"
proof -
  note first = missing_fields_default_to_zero[of example_incomplete_events
      "hd example_incomplete_events" "''take_screwdriver''" 0]
  note third = missing_fields_default_to_zero[of example_incomplete_events
      "last example_incomplete_events" "''picking_left''" "1/2"]
  have typed: "\<forall>e \<in> set example_incomplete_events. key_type e \<noteq> None"
    by (simp add: example_incomplete_events_def)
  have a: "\<exists>rows. display_events_summary example_incomplete_events = Inr (3, 2, rows) \<and>
      map_of rows ''take_screwdriver'' = Some \<lparr>count = 1, total_duration = 0\<rparr> \<and>
      map_of rows ''turn_sheets'' = Some \<lparr>count = 1, total_duration = 3/2\<rparr> \<and>
      map_of rows ''picking_left'' = Some \<lparr>count = 1, total_duration = 1/2\<rparr>"
    using first[OF typed, THEN conjunct1]
    by (auto simp: example_incomplete_events_def)
  have b: "\<exists>lines. display_detailed_events example_incomplete_events = Inr (lines, 3) \<and>
      map snd lines = [(2, 7/2), (4, 5), (0, 0)]"
    using first[OF typed, THEN conjunct2, THEN conjunct1]
    by (auto simp: example_incomplete_events_def)
  have c: "display_events_summary [hd example_incomplete_events] =
     Inr (1, 0, [(''take_screwdriver'', \<lparr>count = 1, total_duration = 0\<rparr>)])"
    using first[OF typed, THEN conjunct2, THEN conjunct2, THEN conjunct1]
    by (simp add: example_incomplete_events_def)
  have d: "display_events_summary [last example_incomplete_events] =
     Inr (1, 1/2, [(''picking_left'', \<lparr>count = 1, total_duration = 1/2\<rparr>)])"
    using third[OF typed, THEN conjunct2, THEN conjunct2, THEN conjunct2, THEN conjunct1]
    by (simp add: example_incomplete_events_def)
  have e: "detailed_line (last example_incomplete_events) = Inr (''[7] Picking left'', 0, 0)"
    using third[OF typed, THEN conjunct2, THEN conjunct2, THEN conjunct2, THEN conjunct2,
        THEN conjunct1]
    by (simp add: example_incomplete_events_def dict_get_def type_to_number_def
        display_names_def str_nat.simps)
  from a b c d e show ?thesis by blast
qed

text \<open>
  An event from 2.0 to 3.5 seconds with no stored duration: the summary counts it with
  the time 0, not 1.5.
\<close>

lemma summary_of_event_without_duration:
  "display_events_summary
     [\<lparr>key_type = Some ''take_screwdriver'', key_start_time = Some 2,
       key_end_time = Some (3.5::real), key_duration = None\<rparr>] =
   Inr (1, 0, [(''take_screwdriver'', \<lparr>count = 1, total_duration = 0\<rparr>)])"
  by (simp add: display_events_summary_def event_get_def)

section \<open>The run of \<^verbatim>\<open>main\<close>\<close>

text \<open>
  \<^verbatim>\<open>main\<close> returns \<^verbatim>\<open>True\<close> exactly when the directories are set up, the user names a
  video, the engine is constructed, the analysis yields events that all carry a type, the
  selection does not raise, and the script generator, if it is called at all, does not
  raise.
\<close>

lemma main_True_iff:
  "main env = Inr True \<longleftrightarrow>
     setup_directories env = None \<and>
     (\<exists>video_path analyzer evs selected.
        get_video_input env = Some video_path \<and> video_path \<noteq> [] \<and>
        new_WorkerAnalysisSystem env video_path = Inr analyzer \<and>
        m_analyze_video analyzer = Inr evs \<and> evs \<noteq> [] \<and>
        m_select_robot_actions analyzer evs = Inr selected \<and>
        (\<forall>e \<in> set evs. key_type e \<noteq> None) \<and>
        (selected = [] \<or>
         (\<exists>path. m_generate_robot_script analyzer
                    \<lparr>key_events = evs, key_robot_selected_events = selected\<rparr> = Inr path)))"
  (is "?L \<longleftrightarrow> ?R")
proof
  assume ?L
  then show ?R
    by (auto simp: main_def analyze_video_def Let_def dest: display_events_summary_Inr
             split: option.splits sum.splits if_splits)
next
  assume ?R
  then show ?L
    by (auto simp: main_def analyze_video_def Let_def display_events_summary_not_Inl
             display_detailed_events_not_Inl
             split: option.splits sum.splits if_splits)
qed

lemma exit_status_zero_iff: "exit_status env = 0 \<longleftrightarrow> main env = Inr True"
  by (auto simp: exit_status_def split: sum.splits)

text \<open>
  C9. The process exits with status 1 when no video path is obtained from the user, when
  the construction of the analysis engine raises, when the analysis returns no data, and
  when the analysed event list is empty; it exits with status 0 when the whole run
  succeeds, which is exactly when \<^verbatim>\<open>main\<close> returns \<^verbatim>\<open>True\<close>; and it exits with no
  status other than 0 and 1.
\<close>

theorem cli_exit_status:
  "(get_video_input env = None \<or> get_video_input env = Some [] \<longrightarrow> exit_status env = 1) \<and>
   (get_video_input env = Some video_path \<and>
    new_WorkerAnalysisSystem env video_path = Inl e \<longrightarrow> exit_status env = 1) \<and>
   (get_video_input env = Some video_path \<and>
    new_WorkerAnalysisSystem env video_path = Inr analyzer \<and>
    analyze_video analyzer = None \<longrightarrow> exit_status env = 1) \<and>
   (get_video_input env = Some video_path \<and>
    new_WorkerAnalysisSystem env video_path = Inr analyzer \<and>
    (m_analyze_video analyzer = Inl e \<or> m_analyze_video analyzer = Inr []) \<longrightarrow>
      exit_status env = 1) \<and>
   (setup_directories env = None \<and>
    get_video_input env = Some video_path \<and> video_path \<noteq> [] \<and>
    new_WorkerAnalysisSystem env video_path = Inr analyzer \<and>
    m_analyze_video analyzer = Inr evs \<and> evs \<noteq> [] \<and>
    m_select_robot_actions analyzer evs = Inr selected \<and>
    (\<forall>event \<in> set evs. key_type event \<noteq> None) \<and>
    (selected = [] \<or>
     m_generate_robot_script analyzer
       \<lparr>key_events = evs, key_robot_selected_events = selected\<rparr> = Inr path) \<longrightarrow>
      exit_status env = 0) \<and>
   (exit_status env = 0 \<longleftrightarrow> main env = Inr True) \<and>
   (exit_status env \<noteq> 0 \<longleftrightarrow> exit_status env = 1)"
proof -
  have 1: "get_video_input env = None \<or> get_video_input env = Some [] \<longrightarrow> exit_status env = 1"
    by (auto simp: exit_status_def main_def split: option.splits sum.splits)
  have 2: "get_video_input env = Some video_path \<and>
    new_WorkerAnalysisSystem env video_path = Inl e \<longrightarrow> exit_status env = 1"
    by (auto simp: exit_status_def main_def split: option.splits sum.splits)
  have 3: "get_video_input env = Some video_path \<and>
    new_WorkerAnalysisSystem env video_path = Inr analyzer \<and>
    analyze_video analyzer = None \<longrightarrow> exit_status env = 1"
    by (auto simp: exit_status_def main_def split: option.splits sum.splits)
  have "m_analyze_video analyzer = Inl e \<or> m_analyze_video analyzer = Inr [] \<Longrightarrow>
      analyze_video analyzer = None"
    by (auto simp: analyze_video_def)
  with 3 have 4: "get_video_input env = Some video_path \<and>
    new_WorkerAnalysisSystem env video_path = Inr analyzer \<and>
    (m_analyze_video analyzer = Inl e \<or> m_analyze_video analyzer = Inr []) \<longrightarrow>
      exit_status env = 1"
    by blast
  have 6: "exit_status env = 0 \<longleftrightarrow> main env = Inr True"
    by (rule exit_status_zero_iff)
  have 5: "setup_directories env = None \<and>
    get_video_input env = Some video_path \<and> video_path \<noteq> [] \<and>
    new_WorkerAnalysisSystem env video_path = Inr analyzer \<and>
    m_analyze_video analyzer = Inr evs \<and> evs \<noteq> [] \<and>
    m_select_robot_actions analyzer evs = Inr selected \<and>
    (\<forall>event \<in> set evs. key_type event \<noteq> None) \<and>
    (selected = [] \<or>
     m_generate_robot_script analyzer
       \<lparr>key_events = evs, key_robot_selected_events = selected\<rparr> = Inr path) \<longrightarrow>
      exit_status env = 0"
    unfolding 6 main_True_iff by blast
  have 7: "exit_status env \<noteq> 0 \<longleftrightarrow> exit_status env = 1"
    by (auto simp: exit_status_def split: sum.splits)
  from 1 2 3 4 5 6 7 show ?thesis by blast
qed

theorem cli_exit_status_witness:
  "exit_status (example_environment example_analyzer) = 0 \<and>
   exit_status ((example_environment example_analyzer)\<lparr>get_video_input := None\<rparr>) = 1 \<and>
   exit_status ((example_environment example_analyzer)
      \<lparr>new_WorkerAnalysisSystem := (\<lambda>video_path. Inl (Exception ''no API key''))\<rparr>) = 1 \<and>
   exit_status (example_environment
      (example_analyzer\<lparr>m_select_robot_actions := (\<lambda>evs. Inl (Exception ''selector''))\<rparr>)) = 1 \<and>
   exit_status (example_environment (example_analyzer\<lparr>m_analyze_video := Inr []\<rparr>)) = 1"
proof -
  have a: "exit_status (example_environment example_analyzer) = 0"
    using cli_exit_status[where env = "example_environment example_analyzer"
        and video_path = "''r1test.mp4''" and analyzer = example_analyzer
        and evs = example_events
        and selected = "[\<lparr>key_type = Some ''take_screwdriver'', key_start_time = Some 2,
              key_end_time = Some 3.5, key_duration = None\<rparr>]"
        and path = "Some ''robot_scripts/robot_script.py''"]
    by (simp add: example_environment_def example_analyzer_def example_events_def)
  have b: "exit_status ((example_environment example_analyzer)\<lparr>get_video_input := None\<rparr>) = 1"
    using cli_exit_status[where
        env = "(example_environment example_analyzer)\<lparr>get_video_input := None\<rparr>"]
    by (simp add: example_environment_def)
  have c: "exit_status ((example_environment example_analyzer)
      \<lparr>new_WorkerAnalysisSystem := (\<lambda>video_path. Inl (Exception ''no API key''))\<rparr>) = 1"
    using cli_exit_status[where env = "(example_environment example_analyzer)
      \<lparr>new_WorkerAnalysisSystem := (\<lambda>video_path. Inl (Exception ''no API key''))\<rparr>"
       and video_path = "''r1test.mp4''" and e = "Exception ''no API key''"]
    by (simp add: example_environment_def)
  have d: "exit_status (example_environment
      (example_analyzer\<lparr>m_select_robot_actions := (\<lambda>evs. Inl (Exception ''selector''))\<rparr>)) = 1"
    using cli_exit_status[where env = "example_environment
      (example_analyzer\<lparr>m_select_robot_actions := (\<lambda>evs. Inl (Exception ''selector''))\<rparr>)"
       and video_path = "''r1test.mp4''"
       and analyzer =
         "example_analyzer\<lparr>m_select_robot_actions := (\<lambda>evs. Inl (Exception ''selector''))\<rparr>"]
    by (simp add: example_environment_def example_analyzer_def example_events_def
        analyze_video_def)
  have e: "exit_status (example_environment (example_analyzer\<lparr>m_analyze_video := Inr []\<rparr>)) = 1"
    using cli_exit_status[where
        env = "example_environment (example_analyzer\<lparr>m_analyze_video := Inr []\<rparr>)"
       and video_path = "''r1test.mp4''"
       and analyzer = "example_analyzer\<lparr>m_analyze_video := Inr []\<rparr>"]
    by (simp add: example_environment_def)
  from a b c d e show ?thesis by blast
qed

text \<open>
  C5. The generator applied to an empty selection fails with \<open>EmptySelection\<close> and yields
  no script. In the shell, when the list of robot-selected events is empty, the script
  generator is not called: whatever it would return or raise, \<^verbatim>\<open>main\<close> returns
  \<^verbatim>\<open>True\<close> and the process exits with status 0, provided the steps before it succeed.
\<close>

theorem empty_selection_skips_generation:
  assumes "setup_directories env = None"
    and "get_video_input env = Some video_path" and "video_path \<noteq> []"
    and "new_WorkerAnalysisSystem env video_path = Inr analyzer"
    and "m_analyze_video analyzer = Inr evs" and "evs \<noteq> []"
    and "\<forall>event \<in> set evs. key_type event \<noteq> None"
    and "m_select_robot_actions analyzer evs = Inr []"
  shows "generate table [] = Inl EmptySelection \<and>
         main env = Inr True \<and> exit_status env = 0 \<and>
         main (env\<lparr>new_WorkerAnalysisSystem :=
                 (\<lambda>p. Inr (analyzer\<lparr>m_generate_robot_script := g\<rparr>))\<rparr>) = Inr True"
proof -
  have 1: "generate table [] = Inl EmptySelection"
    by (simp add: generate_def)
  have 2: "main env = Inr True"
    unfolding main_True_iff using assms by auto
  have 3: "exit_status env = 0"
    using 2 by (simp add: exit_status_def)
  have 4: "main (env\<lparr>new_WorkerAnalysisSystem :=
                 (\<lambda>p. Inr (analyzer\<lparr>m_generate_robot_script := g\<rparr>))\<rparr>) = Inr True"
    unfolding main_True_iff using assms by auto
  from 1 2 3 4 show ?thesis by blast
qed

theorem empty_selection_skips_generation_witness:
  "generate (\<lambda>k. ()) [] = Inl EmptySelection \<and>
   main (example_environment
     (example_analyzer\<lparr>m_select_robot_actions := (\<lambda>evs. Inr []),
        m_generate_robot_script := (\<lambda>data. Inl (Exception ''no commands''))\<rparr>)) = Inr True"
  using empty_selection_skips_generation[where
      env = "example_environment
     (example_analyzer\<lparr>m_select_robot_actions := (\<lambda>evs. Inr []),
        m_generate_robot_script := (\<lambda>data. Inl (Exception ''no commands''))\<rparr>)"
      and video_path = "''r1test.mp4''"
      and analyzer = "example_analyzer\<lparr>m_select_robot_actions := (\<lambda>evs. Inr []),
        m_generate_robot_script := (\<lambda>data. Inl (Exception ''no commands''))\<rparr>"
      and evs = example_events and table = "\<lambda>k. ()"]
  by (simp add: example_environment_def example_analyzer_def example_events_def)

section \<open>Selection and script generation\<close>

lemma select_filter: "select evs p = filter (\<lambda>e. kind e \<in> actionable_set p) evs"
  by (induction evs) simp_all

text \<open>
  C3. For every event sequence and every policy, an event is a member of the selection
  iff it is an event of the sequence and its kind is in the policy's actionable set: the
  selection retains exactly the events of a robot-actionable kind and drops all others.
\<close>

theorem select_membership:
  "(e \<in> set (select evs p)) = (e \<in> set evs \<and> kind e \<in> actionable_set p)"
  by (simp add: select_filter)

text \<open>
  C4. The selection returns the retained events in the relative order of the input: it is
  the input with the dropped events deleted, and the selection of a sequence followed by
  another is the selection of the first followed by that of the second. Start times play
  no part, so two events with the same start time keep their input order.
\<close>

theorem select_preserves_order:
  "subseq (select evs p) evs \<and>
   select (xs @ ys) p = select xs p @ select ys p \<and>
   select evs p = filter (\<lambda>e. kind e \<in> actionable_set p) evs"
  by (simp add: select_filter)

lemma sorted_offsets:
  "sorted (map start_time sel) \<Longrightarrow> sorted (map (\<lambda>e. start_time e - c) sel)"
  by (simp add: sorted_map)

text \<open>
  C6. For a script generated from a non-empty selection, whose events are in temporal
  order as those of every selection are, the start offsets of the commands, each the
  event's start time minus the start time of the first selected event, are non-decreasing
  in emission order, and the first offset is exactly 0. For the example selection of
  take\_screwdriver (2.0 to 3.5) and put\_down\_screwdriver (10.0 to 10.5) the offsets are 0 and 8.
\<close>

theorem script_offsets_monotone:
  assumes "selection \<noteq> []" and "sorted (map start_time selection)"
  shows "\<exists>script. generate table selection = Inr script \<and>
           length script = length selection \<and>
           sorted (map offset script) \<and> offset (hd script) = 0 \<and>
           map offset script = map (\<lambda>e. start_time e - start_time (hd selection)) selection"
proof -
  from assms(1) obtain first rest where sel: "selection = first # rest"
    by (cases selection) auto
  have "sorted (map (\<lambda>e. start_time e - start_time first) selection)"
    using assms(2) by (rule sorted_offsets)
  then show ?thesis
    by (simp add: generate_def sel comp_def)
qed

theorem script_offsets_monotone_witness:
  "\<exists>script. generate (\<lambda>k. ()) example_selection = Inr script \<and>
     map offset script = [0, 8] \<and> map code script = [4, 5]"
  using script_offsets_monotone[of example_selection "\<lambda>k. ()"]
  by (auto simp: example_selection_def generate_def dict_get_def type_to_number_def)

text \<open>
  C7. Constructing an event from a raw triple of a kind string, a start time and an end
  time fails with \<open>InvalidTimeRange\<close> when the end time is less than the start time; every
  event that is constructed has the duration end time minus start time, which is not
  negative; and every triple with 0 \<le> start \<le> end is accepted.
\<close>

theorem event_construction:
  "(t < s \<longrightarrow> make_event (k, s, t) = Inl InvalidTimeRange) \<and>
   (make_event (k, s, t) = Inr e \<longrightarrow>
      0 \<le> duration e \<and> duration e = t - s \<and> kind e = k \<and> start_time e = s \<and> end_time e = t) \<and>
   (0 \<le> s \<and> s \<le> t \<longrightarrow>
      make_event (k, s, t) = Inr \<lparr>kind = k, start_time = s, end_time = t\<rparr>)"
  by (auto simp: make_event_def duration_def split: if_splits)

theorem event_construction_witness:
  "make_event (''take_screwdriver'', 10, 2) = Inl InvalidTimeRange \<and>
   make_event (''take_screwdriver'', 2, 3.5) =
     Inr \<lparr>kind = ''take_screwdriver'', start_time = 2, end_time = 3.5\<rparr> \<and>
   duration \<lparr>kind = ''take_screwdriver'', start_time = 2, end_time = 3.5\<rparr> = 1.5"
proof -
  have a: "make_event (''take_screwdriver'', 10, 2) = Inl InvalidTimeRange"
    using event_construction[of 2 10 "''take_screwdriver''"] by simp
  have b: "make_event (''take_screwdriver'', 2, 3.5) =
     Inr \<lparr>kind = ''take_screwdriver'', start_time = 2, end_time = 3.5\<rparr>"
    using event_construction[of "3.5" 2 "''take_screwdriver''"] by simp
  have c: "duration \<lparr>kind = ''take_screwdriver'', start_time = 2, end_time = 3.5\<rparr> = 1.5"
    using event_construction[of "3.5" 2 "''take_screwdriver''"
        "\<lparr>kind = ''take_screwdriver'', start_time = 2, end_time = 3.5\<rparr>"] b by simp
  from a b c show ?thesis by blast
qed

end
